theory Spec2Isabelle
  imports Main "HOL-Library.Sublist"
begin

section \<open>The Sublime Text backend of iterm2-dwim\<close>

text \<open>
  The unit under verification is \<^verbatim>\<open>iterm2_dwim/editors/sublime.py\<close>:
  \<^verbatim>\<open>
  class Sublime(BaseEditor):

      def visit_file(self, path, line):
          path = re.sub('\.pyc$', '.py', path)

          cmd = [
              self.executable,
              '%s:%s' % (path, line)
          ]
          log(' '.join(cmd))
          subprocess.check_call(cmd)
  \<close>
  Strings are lists of characters. The logger and the operating system are the two
  collaborators of the method; what they do is recorded in a trace of events that is
  threaded through the calls, and the operating system's answer to a request to run a
  command is a parameter of the model.
\<close>

subsection \<open>Python values and their string conversion\<close>

text \<open>
  The caller passes \<open>line\<close> unchecked, so it is a Python value, not only a positive
  integer. The \<^verbatim>\<open>%s\<close> conversion applies \<^verbatim>\<open>str\<close> to it.
\<close>

datatype pyval = PyInt int | PyStr string | PyBool bool | PyNone

definition digit_char :: "nat \<Rightarrow> char" where
  "digit_char d = ''0123456789'' ! d"

fun str_nat :: "nat \<Rightarrow> string" where
  "str_nat n =
     (if n < 10 then [digit_char n] else str_nat (n div 10) @ [digit_char (n mod 10)])"

declare str_nat.simps [simp del]

definition str_int :: "int \<Rightarrow> string" where
  "str_int i = (if i < 0 then CHR ''-'' # str_nat (nat (- i)) else str_nat (nat i))"

fun py_str :: "pyval \<Rightarrow> string" where
  "py_str (PyInt i) = str_int i"
| "py_str (PyStr s) = s"
| "py_str (PyBool b) = (if b then ''True'' else ''False'')"
| "py_str PyNone = ''None''"

text \<open>\<^verbatim>\<open>'%s:%s' % (path, line)\<close>, for a path that is a string.\<close>

definition format_path_line :: "string \<Rightarrow> pyval \<Rightarrow> string" where
  "format_path_line path line = path @ '':'' @ py_str line"

text \<open>\<^verbatim>\<open>sep.join(xs)\<close>\<close>

fun join :: "string \<Rightarrow> string list \<Rightarrow> string" where
  "join sep [] = []"
| "join sep [x] = x"
| "join sep (x # y # ys) = x @ sep @ join sep (y # ys)"

subsection \<open>The substitution \<^verbatim>\<open>re.sub('\.pyc$', '.py', path)\<close>\<close>

text \<open>
  Without the MULTILINE flag, Python's \<^verbatim>\<open>$\<close> holds at the end of the subject and
  also just before a newline that is the subject's last character. The argument is what
  remains of the subject at the position tested.
\<close>

definition at_dollar :: "string \<Rightarrow> bool" where
  "at_dollar rest \<longleftrightarrow> rest = [] \<or> rest = [CHR 0x0A]"

text \<open>The pattern matches at the head of \<open>s\<close>: the four characters, then \<^verbatim>\<open>$\<close>.\<close>

definition pyc_match :: "string \<Rightarrow> bool" where
  "pyc_match s \<longleftrightarrow> take 4 s = ''.pyc'' \<and> at_dollar (drop 4 s)"

text \<open>
  \<^verbatim>\<open>re.sub\<close> scans the subject from the left; at a position where the pattern
  matches it emits the replacement and goes on after the match, elsewhere it copies one
  character.
\<close>

fun re_sub_pyc :: "string \<Rightarrow> string" where
  "re_sub_pyc [] = []"
| "re_sub_pyc (c # cs) =
     (if pyc_match (c # cs) then ''.py'' @ re_sub_pyc (drop 3 cs) else c # re_sub_pyc cs)"

subsection \<open>The logger and the operating system\<close>

datatype event = Log string | Spawn "string list"

text \<open>
  What the operating system answers when asked to run a command and wait for it: the
  process exits with a status (negative when a signal killed it), it runs forever, or it
  could not be started at all (no such executable, for instance).
\<close>

datatype proc_outcome = Exited int | NeverExits | NotStarted

type_synonym os = "string list \<Rightarrow> proc_outcome"

datatype error = CalledProcessError int "string list" | OSError

text \<open>
  The result of a call: \<open>None\<close> when the call never returns, \<open>Some (Inl e)\<close> when it
  raises \<open>e\<close>, \<open>Some (Inr v)\<close> when it returns \<open>v\<close>.
\<close>

type_synonym 'a result = "(error + 'a) option"

text \<open>
  Modelled from the spec: \<^verbatim>\<open>iterm2_dwim.logger.log\<close> is not among the sources. The
  spec describes it as a single-argument logging call accepting a string, which emits a
  log line.
\<close>

definition log :: "string \<Rightarrow> event list \<Rightarrow> event list" where
  "log msg tr = tr @ [Log msg]"

text \<open>
  \<^verbatim>\<open>subprocess.check_call(cmd)\<close> of the standard library, with no timeout: it starts
  the process, waits for it to exit, returns 0 when the exit status is zero and raises
  \<^verbatim>\<open>CalledProcessError(retcode, cmd)\<close> otherwise. A process that cannot be started
  makes it raise \<^verbatim>\<open>OSError\<close>.
\<close>

definition check_call :: "os \<Rightarrow> string list \<Rightarrow> event list \<Rightarrow> event list \<times> int result" where
  "check_call os cmd tr =
     (tr @ [Spawn cmd],
      case os cmd of
        NotStarted \<Rightarrow> Some (Inl OSError)
      | NeverExits \<Rightarrow> None
      | Exited retcode \<Rightarrow>
          if retcode \<noteq> 0 then Some (Inl (CalledProcessError retcode cmd)) else Some (Inr 0))"

subsection \<open>The editor\<close>

text \<open>
  Modelled from the spec: \<^verbatim>\<open>BaseEditor\<close>, which gives the editor its
  \<^verbatim>\<open>executable\<close> attribute, is not among the sources. The spec describes the
  attribute as a configured string naming the editor binary.
\<close>

record Sublime =
  executable :: string

text \<open>
  The method discards the value of \<^verbatim>\<open>check_call\<close> and returns \<^verbatim>\<open>None\<close>; it has
  no handler, so what \<^verbatim>\<open>check_call\<close> raises leaves the method.
\<close>

definition visit_file ::
  "os \<Rightarrow> Sublime \<Rightarrow> string \<Rightarrow> pyval \<Rightarrow> event list \<Rightarrow> event list \<times> unit result" where
  "visit_file os self path line tr =
     (let path' = re_sub_pyc path;
          cmd = [executable self, format_path_line path' line];
          tr1 = log (join '' '' cmd) tr;
          (tr2, r) = check_call os cmd tr1
      in (tr2, case r of
                 None \<Rightarrow> None
               | Some (Inl e) \<Rightarrow> Some (Inl e)
               | Some (Inr _) \<Rightarrow> Some (Inr ())))"

text \<open>The commands handed to the operating system, and the lines logged, in a trace.\<close>

fun spawned :: "event list \<Rightarrow> string list list" where
  "spawned [] = []"
| "spawned (Spawn cmd # es) = cmd # spawned es"
| "spawned (Log _ # es) = spawned es"

fun logged :: "event list \<Rightarrow> string list" where
  "logged [] = []"
| "logged (Log msg # es) = msg # logged es"
| "logged (Spawn _ # es) = logged es"

subsection \<open>Particular operating systems\<close>

text \<open>
  Two environments for the concrete runs below: one in which every command starts and
  exits with the given status, one in which no command can be started.
\<close>

definition os_exit :: "int \<Rightarrow> os" where
  "os_exit rc = (\<lambda>cmd. Exited rc)"


section \<open>Properties\<close>

subsection \<open>Auxiliary facts\<close>

lemma spawned_append: "spawned (xs @ ys) = spawned xs @ spawned ys"
  by (induction xs rule: spawned.induct) simp_all

lemma logged_append: "logged (xs @ ys) = logged xs @ logged ys"
  by (induction xs rule: logged.induct) simp_all

lemma visit_file_trace:
  "fst (visit_file os self path line tr) =
     tr @ [Log (executable self @ '' '' @ re_sub_pyc path @ '':'' @ py_str line),
           Spawn [executable self, re_sub_pyc path @ '':'' @ py_str line]]"
  by (simp add: visit_file_def check_call_def log_def format_path_line_def Let_def)

lemma visit_file_result:
  "snd (visit_file os self path line tr) =
     (case os [executable self, re_sub_pyc path @ '':'' @ py_str line] of
        Exited rc \<Rightarrow>
          if rc \<noteq> 0
          then Some (Inl (CalledProcessError rc
                 [executable self, re_sub_pyc path @ '':'' @ py_str line]))
          else Some (Inr ())
      | NeverExits \<Rightarrow> None
      | NotStarted \<Rightarrow> Some (Inl OSError))"
  by (simp add: visit_file_def check_call_def log_def format_path_line_def Let_def
      split: proc_outcome.splits)

lemma str_int_42: "str_int 42 = ''42''"
  by (simp add: str_int_def str_nat.simps digit_char_def)

lemma str_int_1: "str_int 1 = ''1''"
  by (simp add: str_int_def str_nat.simps digit_char_def)

subsection \<open>Where the pattern matches\<close>

text \<open>
  The pattern matches at the head of exactly two subjects, so a subject has at most one
  match: its last four characters, or the four before a final newline.
\<close>

lemma pyc_match_iff: "pyc_match s \<longleftrightarrow> s = ''.pyc'' \<or> s = ''.pyc\<newline>''"
proof
  assume m: "pyc_match s"
  then have t: "take 4 s = ''.pyc''" and d: "drop 4 s = [] \<or> drop 4 s = ''\<newline>''"
    by (simp_all add: pyc_match_def at_dollar_def)
  have s: "s = take 4 s @ drop 4 s" by simp
  from d show "s = ''.pyc'' \<or> s = ''.pyc\<newline>''"
  proof
    assume "drop 4 s = []"
    with t have "take 4 s @ drop 4 s = ''.pyc'' @ []" by (simp only:)
    with s show ?thesis by simp
  next
    assume "drop 4 s = ''\<newline>''"
    with t have "take 4 s @ drop 4 s = ''.pyc'' @ ''\<newline>''" by (simp only:)
    with s show ?thesis by simp
  qed
next
  assume "s = ''.pyc'' \<or> s = ''.pyc\<newline>''"
  then show "pyc_match s" by (auto simp: pyc_match_def at_dollar_def)
qed

lemma re_sub_pyc_suffix: "re_sub_pyc (p @ ''.pyc'') = p @ ''.py''"
proof (induction p)
  case Nil
  show ?case by (simp add: pyc_match_iff)
next
  case (Cons c p)
  have "\<not> pyc_match ((c # p) @ ''.pyc'')"
  proof
    assume "pyc_match ((c # p) @ ''.pyc'')"
    then have "(c # p) @ ''.pyc'' = ''.pyc'' \<or> (c # p) @ ''.pyc'' = ''.pyc\<newline>''"
      by (simp only: pyc_match_iff)
    then show False
    proof
      assume "(c # p) @ ''.pyc'' = ''.pyc''"
      then have "length ((c # p) @ ''.pyc'') = length ''.pyc''" by (rule arg_cong)
      then show False by simp
    next
      assume "(c # p) @ ''.pyc'' = ''.pyc\<newline>''"
      then have "last ((c # p) @ ''.pyc'') = last ''.pyc\<newline>''" by (rule arg_cong)
      then show False by simp
    qed
  qed
  with Cons.IH show ?case by simp
qed

lemma re_sub_pyc_suffix_nl: "re_sub_pyc (p @ ''.pyc\<newline>'') = p @ ''.py\<newline>''"
proof (induction p)
  case Nil
  show ?case by (simp add: pyc_match_iff)
next
  case (Cons c p)
  have "\<not> pyc_match ((c # p) @ ''.pyc\<newline>'')"
  proof
    assume "pyc_match ((c # p) @ ''.pyc\<newline>'')"
    then have "(c # p) @ ''.pyc\<newline>'' = ''.pyc''
        \<or> (c # p) @ ''.pyc\<newline>'' = ''.pyc\<newline>''"
      by (simp only: pyc_match_iff)
    then show False
    proof
      assume "(c # p) @ ''.pyc\<newline>'' = ''.pyc''"
      then have "length ((c # p) @ ''.pyc\<newline>'') = length ''.pyc''" by (rule arg_cong)
      then show False by simp
    next
      assume "(c # p) @ ''.pyc\<newline>'' = ''.pyc\<newline>''"
      then have "length ((c # p) @ ''.pyc\<newline>'') = length ''.pyc\<newline>''" by (rule arg_cong)
      then show False by simp
    qed
  qed
  with Cons.IH show ?case by simp
qed

lemma re_sub_pyc_other:
  "\<not> suffix ''.pyc'' s \<Longrightarrow> \<not> suffix ''.pyc\<newline>'' s \<Longrightarrow> re_sub_pyc s = s"
proof (induction s)
  case Nil
  show ?case by simp
next
  case (Cons c cs)
  from Cons.prems have nm: "\<not> pyc_match (c # cs)"
    by (auto simp: pyc_match_iff)
  from Cons.prems have "\<not> suffix ''.pyc'' cs" "\<not> suffix ''.pyc\<newline>'' cs"
    by (blast intro: suffix_ConsI)+
  with Cons.IH nm show ?case by simp
qed

lemma not_suffix_pyc_nl: "\<not> suffix ''.pyc'' (p @ ''.pyc\<newline>'')"
proof
  assume "suffix ''.pyc'' (p @ ''.pyc\<newline>'')"
  then obtain zs where "p @ ''.pyc\<newline>'' = zs @ ''.pyc''"
    by (auto simp: suffix_def)
  then have "last (p @ ''.pyc\<newline>'') = last (zs @ ''.pyc'')"
    by (rule arg_cong)
  then show False by simp
qed

subsection \<open>The path used in the command\<close>

text \<open>
  Claim C1 as stated fails in its second half: the path \<^verbatim>\<open>/a/b.pyc\<close> followed by a
  newline does not end in \<^verbatim>\<open>.pyc\<close>, and yet the command carries it rewritten, not
  unchanged.
\<close>

theorem visit_file_pyc_newline_counterexample:
  "\<not> suffix ''.pyc'' ''/a/b.pyc\<newline>'' \<and>
   spawned (fst (visit_file (os_exit 0) \<lparr>executable = ''subl''\<rparr>
                  ''/a/b.pyc\<newline>'' (PyInt 42) [])) =
     [[''subl'', ''/a/b.py\<newline>:42'']] \<and>
   spawned (fst (visit_file (os_exit 0) \<lparr>executable = ''subl''\<rparr>
                  ''/a/b.pyc\<newline>'' (PyInt 42) [])) \<noteq>
     [[''subl'', ''/a/b.pyc\<newline>'' @ '':42'']]"
proof -
  have "\<not> suffix ''.pyc'' (''/a/b'' @ ''.pyc\<newline>'')"
    by (rule not_suffix_pyc_nl)
  moreover have "re_sub_pyc (''/a/b'' @ ''.pyc\<newline>'') = ''/a/b'' @ ''.py\<newline>''"
    by (rule re_sub_pyc_suffix_nl)
  ultimately show ?thesis
    by (simp add: visit_file_trace str_int_42)
qed

text \<open>
  Claim C1, amended. For every path ending in \<^verbatim>\<open>.pyc\<close>, the command that
  \<open>visit_file\<close> hands to the operating system carries the path with that suffix
  replaced by \<^verbatim>\<open>.py\<close>. For every path ending in \<^verbatim>\<open>.pyc\<close> and one newline, it
  carries the path with the \<^verbatim>\<open>.pyc\<close> before the newline replaced by \<^verbatim>\<open>.py\<close>
  and the newline kept. For every other path, it carries the path as the caller
  supplied it.
\<close>

theorem visit_file_path_normalisation:
  "(path = p @ ''.pyc'' \<longrightarrow>
      spawned (fst (visit_file os self path line tr)) =
        spawned tr @ [[executable self, (p @ ''.py'') @ '':'' @ py_str line]]) \<and>
   (path = p @ ''.pyc\<newline>'' \<longrightarrow>
      spawned (fst (visit_file os self path line tr)) =
        spawned tr @ [[executable self, (p @ ''.py\<newline>'') @ '':'' @ py_str line]]) \<and>
   (\<not> suffix ''.pyc'' path \<and> \<not> suffix ''.pyc\<newline>'' path \<longrightarrow>
      spawned (fst (visit_file os self path line tr)) =
        spawned tr @ [[executable self, path @ '':'' @ py_str line]])"
  by (simp add: visit_file_trace spawned_append re_sub_pyc_suffix re_sub_pyc_suffix_nl
      re_sub_pyc_other del: re_sub_pyc.simps)

theorem visit_file_path_normalisation_witness:
  "''/a/b.pyc'' = ''/a/b'' @ ''.pyc'' \<and>
   spawned (fst (visit_file (os_exit 0) \<lparr>executable = ''subl''\<rparr> ''/a/b.pyc'' (PyInt 42) [])) =
     [[''subl'', ''/a/b.py:42'']] \<and>
   ''/a/b.pyc\<newline>'' = ''/a/b'' @ ''.pyc\<newline>'' \<and>
   spawned (fst (visit_file (os_exit 0) \<lparr>executable = ''subl''\<rparr>
                  ''/a/b.pyc\<newline>'' (PyInt 42) [])) =
     [[''subl'', ''/a/b.py\<newline>:42'']] \<and>
   \<not> suffix ''.pyc'' ''/a/b.txt'' \<and> \<not> suffix ''.pyc\<newline>'' ''/a/b.txt'' \<and>
   spawned (fst (visit_file (os_exit 0) \<lparr>executable = ''subl''\<rparr> ''/a/b.txt'' (PyInt 1) [])) =
     [[''subl'', ''/a/b.txt:1'']]"
proof -
  have n1: "\<not> suffix ''.pyc'' ''/a/b.txt''"
    by (simp add: suffix_def Cons_eq_append_conv append_eq_Cons_conv)
  have n2: "\<not> suffix ''.pyc\<newline>'' ''/a/b.txt''"
    by (simp add: suffix_def Cons_eq_append_conv append_eq_Cons_conv)
  show ?thesis
    using n1 n2
      visit_file_path_normalisation [of "''/a/b.pyc''" "''/a/b''" "os_exit 0"
        "\<lparr>executable = ''subl''\<rparr>" "PyInt 42" "[]"]
      visit_file_path_normalisation [of "''/a/b.pyc\<newline>''" "''/a/b''" "os_exit 0"
        "\<lparr>executable = ''subl''\<rparr>" "PyInt 42" "[]"]
      visit_file_path_normalisation [of "''/a/b.txt''" "[]" "os_exit 0"
        "\<lparr>executable = ''subl''\<rparr>" "PyInt 1" "[]"]
    by (simp add: str_int_42 str_int_1)
qed

text \<open>
  Claim C10. A path that ends in \<^verbatim>\<open>.pyc\<close> and one newline does not end in
  \<^verbatim>\<open>.pyc\<close>, and is rewritten all the same, because \<^verbatim>\<open>$\<close> also holds just before
  a final newline: the command carries \<^verbatim>\<open>.py\<close> and the newline. The path
  \<^verbatim>\<open>b.pyc\<close> with a newline becomes \<^verbatim>\<open>b.py\<close> with a newline.
\<close>

theorem visit_file_pyc_before_trailing_newline:
  "\<not> suffix ''.pyc'' (p @ ''.pyc\<newline>'') \<and>
   spawned (fst (visit_file os self (p @ ''.pyc\<newline>'') line tr)) =
     spawned tr @ [[executable self, (p @ ''.py\<newline>'') @ '':'' @ py_str line]] \<and>
   spawned (fst (visit_file os \<lparr>executable = ''subl''\<rparr> ''b.pyc\<newline>'' (PyInt 42) [])) =
     [[''subl'', ''b.py\<newline>:42'']]"
proof -
  have "re_sub_pyc (''b'' @ ''.pyc\<newline>'') = ''b'' @ ''.py\<newline>''"
    by (rule re_sub_pyc_suffix_nl)
  then have "re_sub_pyc ''b.pyc\<newline>'' = ''b.py\<newline>''" by simp
  then show ?thesis
    by (simp add: visit_file_trace spawned_append re_sub_pyc_suffix_nl not_suffix_pyc_nl
        str_int_42 del: re_sub_pyc.simps)
qed

subsection \<open>The command and the log line\<close>

text \<open>
  Claim C2. For every executable, path and line, the argument vector that
  \<open>visit_file\<close> builds and passes to the subprocess call has exactly two elements:
  the executable, and the normalised path, a colon and the line. Nothing else is passed.
\<close>

theorem visit_file_argument_vector:
  "spawned (fst (visit_file os self path line tr)) =
     spawned tr @ [[executable self, re_sub_pyc path @ '':'' @ py_str line]]"
  by (simp add: visit_file_trace spawned_append)

text \<open>
  Claim C5. Every call of \<open>visit_file\<close> emits exactly one log line; the line is the
  elements of the command joined by single spaces, that is the executable, a space, and
  the path, colon and line; and it is emitted before the subprocess is invoked.
\<close>

theorem visit_file_logs_command_before_spawn:
  "fst (visit_file os self path line tr) =
     tr @ [Log (join '' '' [executable self, re_sub_pyc path @ '':'' @ py_str line]),
           Spawn [executable self, re_sub_pyc path @ '':'' @ py_str line]] \<and>
   join '' '' [executable self, re_sub_pyc path @ '':'' @ py_str line] =
     executable self @ '' '' @ re_sub_pyc path @ '':'' @ py_str line \<and>
   logged (fst (visit_file os self path line tr)) =
     logged tr @ [executable self @ '' '' @ re_sub_pyc path @ '':'' @ py_str line]"
  by (simp add: visit_file_trace logged_append)

text \<open>
  Claim C6. With the executable \<^verbatim>\<open>subl\<close>, the path \<^verbatim>\<open>/a/b.pyc\<close> and line 42 give
  the command \<^verbatim>\<open>["subl", "/a/b.py:42"]\<close>, and the path \<^verbatim>\<open>/a/b.txt\<close> and line 1
  give \<^verbatim>\<open>["subl", "/a/b.txt:1"]\<close>.
\<close>

theorem visit_file_examples:
  "spawned (fst (visit_file os \<lparr>executable = ''subl''\<rparr> ''/a/b.pyc'' (PyInt 42) [])) =
     [[''subl'', ''/a/b.py:42'']] \<and>
   spawned (fst (visit_file os \<lparr>executable = ''subl''\<rparr> ''/a/b.txt'' (PyInt 1) [])) =
     [[''subl'', ''/a/b.txt:1'']]"
  by (simp add: visit_file_trace pyc_match_def at_dollar_def str_int_42 str_int_1)

text \<open>
  Claim C9. The command and the log line depend on the executable, the path and the
  line only: two calls with the same three, under any two operating systems and after
  any two histories, add the same events, the same command and the same log line.
\<close>

theorem visit_file_command_deterministic:
  "drop (length tr1) (fst (visit_file os1 self path line tr1)) =
     drop (length tr2) (fst (visit_file os2 self path line tr2)) \<and>
   drop (length (spawned tr1)) (spawned (fst (visit_file os1 self path line tr1))) =
     drop (length (spawned tr2)) (spawned (fst (visit_file os2 self path line tr2))) \<and>
   drop (length (logged tr1)) (logged (fst (visit_file os1 self path line tr1))) =
     drop (length (logged tr2)) (logged (fst (visit_file os2 self path line tr2)))"
  by (simp add: visit_file_trace spawned_append logged_append)

subsection \<open>The outcome of the call\<close>

text \<open>
  Claim C3. When the editor process exits with a status other than zero,
  \<open>visit_file\<close> raises the process-execution error that carries that status (and the
  command); nothing inside the method catches it.
\<close>

theorem visit_file_nonzero_exit_raises:
  assumes "os [executable self, re_sub_pyc path @ '':'' @ py_str line] = Exited rc"
    and "rc \<noteq> 0"
  shows "snd (visit_file os self path line tr) =
           Some (Inl (CalledProcessError rc
             [executable self, re_sub_pyc path @ '':'' @ py_str line]))"
  using assms by (simp add: visit_file_result)

theorem visit_file_nonzero_exit_raises_witness:
  "os_exit 3 [executable \<lparr>executable = ''subl''\<rparr>,
              re_sub_pyc ''/a/b.pyc'' @ '':'' @ py_str (PyInt 42)] = Exited 3 \<and>
   (3::int) \<noteq> 0 \<and>
   snd (visit_file (os_exit 3) \<lparr>executable = ''subl''\<rparr> ''/a/b.pyc'' (PyInt 42) []) =
     Some (Inl (CalledProcessError 3 [''subl'', ''/a/b.py:42'']))"
proof -
  have e: "os_exit 3 [executable \<lparr>executable = ''subl''\<rparr>,
             re_sub_pyc ''/a/b.pyc'' @ '':'' @ py_str (PyInt 42)] = Exited 3"
    by (simp add: os_exit_def)
  have n: "(3::int) \<noteq> 0" by simp
  show ?thesis
    using e n
      visit_file_nonzero_exit_raises [of "os_exit 3" "\<lparr>executable = ''subl''\<rparr>"
        "''/a/b.pyc''" "PyInt 42" 3 "[]"]
    by (simp add: pyc_match_def at_dollar_def str_int_42)
qed

text \<open>
  Claim C4. When the editor process exits with status 0, \<open>visit_file\<close> returns
  normally and raises nothing.
\<close>

theorem visit_file_zero_exit_returns:
  assumes "os [executable self, re_sub_pyc path @ '':'' @ py_str line] = Exited 0"
  shows "snd (visit_file os self path line tr) = Some (Inr ())"
  using assms by (simp add: visit_file_result)

theorem visit_file_zero_exit_returns_witness:
  "os_exit 0 [executable \<lparr>executable = ''subl''\<rparr>,
              re_sub_pyc ''/a/b.txt'' @ '':'' @ py_str (PyInt 1)] = Exited 0 \<and>
   snd (visit_file (os_exit 0) \<lparr>executable = ''subl''\<rparr> ''/a/b.txt'' (PyInt 1) []) =
     Some (Inr ())"
proof -
  have e: "os_exit 0 [executable \<lparr>executable = ''subl''\<rparr>,
             re_sub_pyc ''/a/b.txt'' @ '':'' @ py_str (PyInt 1)] = Exited 0"
    by (simp add: os_exit_def)
  show ?thesis
    using e
      visit_file_zero_exit_returns [of "os_exit 0" "\<lparr>executable = ''subl''\<rparr>"
        "''/a/b.txt''" "PyInt 1" "[]"]
    by simp
qed





end
